theory Spec2Isabelle
  imports Main
begin

section \<open>Task resolution and tap links of the keg-cli\<close>

text \<open>
  A shallow embedding of \<^verbatim>\<open>repos/keg-cli/src/utils/task/findTask.js\<close> (the task
  resolver) and \<^verbatim>\<open>repos/keg-cli/src/tasks/tap/link.js\<close> (the tap registry).
  Objects are records, JavaScript's \<^verbatim>\<open>undefined\<close> is \<open>None\<close>, a thrown error is
  \<open>Throw\<close>, \<^verbatim>\<open>process.exit\<close> is \<open>Exit\<close>.  The mutable parts of the process (the
  global config object, what was saved to disk, the arrays of option tokens and the
  lines written by the logger) are the fields of one \<open>world\<close> record that every
  effectful function takes and returns.
\<close>

subsection \<open>Data model\<close>

text \<open>A tap link as stored under \<^verbatim>\<open>GlobalConfig.tapLinks[name]\<close>: both fields may be missing.\<close>

record tapObj =
  path :: "string option"
  tasks :: "string option"

text \<open>
  The global config.  Only the container of tap links is read or written by the two
  modules; the container itself may be missing (\<open>None\<close>).
\<close>

record config =
  tapLinks :: "(string \<rightharpoonup> tapObj) option"

text \<open>A task definition; \<open>inject\<close> is what \<^verbatim>\<open>get(taskData, 'task.inject')\<close> reads.\<close>

record taskDef =
  name :: string
  "alias" :: "string list"
  description :: string
  inject :: bool

type_synonym taskSet = "string \<rightharpoonup> taskDef"

type_synonym paramSet = "string \<rightharpoonup> string"

text \<open>The object \<^verbatim>\<open>{ task, options, params }\<close> that \<^verbatim>\<open>getTask\<close> returns and the resolver completes.\<close>

record taskData =
  task :: "taskDef option"
  options :: "string list"
  params :: "paramSet option"

text \<open>What \<^verbatim>\<open>findTask\<close> validates: the found object, or the literal \<^verbatim>\<open>{}\<close>.\<close>

datatype found = EmptyObject | Found taskData

text \<open>
  A thrown value: \<^verbatim>\<open>null\<close> or \<^verbatim>\<open>undefined\<close>, of which no property can be read, or any
  other value, with what its \<^verbatim>\<open>message\<close> property reads (\<open>None\<close> for \<^verbatim>\<open>undefined\<close>).
\<close>

datatype thrown = Nullish | Raised "string option"

text \<open>The logger's lines; \<^verbatim>\<open>Logger.error\<close> is given \<^verbatim>\<open>err.message\<close>, which may be \<^verbatim>\<open>undefined\<close>.\<close>

datatype logLine = LogEmpty | LogWarn string | LogError "string option" | LogSuccess string

text \<open>How a call ends: it returns, the process exits with a status, or an error propagates.\<close>

datatype 'a outcome = Return 'a | Exit nat | Throw thrown

text \<open>
  The TypeError of reading a property of \<^verbatim>\<open>null\<close> or \<^verbatim>\<open>undefined\<close>, and of joining a path
  that is not a string; the wording of the message is the engine's.
\<close>

definition typeError :: thrown where
  "typeError = Raised (Some ''TypeError'')"

text \<open>
  Arrays are objects with identity: a reference is an index into \<open>arrays\<close>, and a new
  array always gets the next unused index.
\<close>

type_synonym ref = nat

record world =
  globalConfig :: config
  saves :: "config list"
  arrays :: "string list list"
  logs :: "logLine list"

definition newArray :: "string list \<Rightarrow> world \<Rightarrow> ref \<times> world" where
  "newArray xs w = (length (arrays w), w\<lparr>arrays := arrays w @ [xs]\<rparr>)"

definition readArray :: "world \<Rightarrow> ref \<Rightarrow> string list" where
  "readArray w r = arrays w ! r"

definition logLines :: "logLine list \<Rightarrow> world \<Rightarrow> world" where
  "logLines ls w = w\<lparr>logs := logs w @ ls\<rparr>"

text \<open>JavaScript truthiness of a value that is a string or \<^verbatim>\<open>undefined\<close>.\<close>

definition truthy :: "string option \<Rightarrow> bool" where
  "truthy v = (case v of None \<Rightarrow> False | Some s \<Rightarrow> s \<noteq> [])"

text \<open>How a template string prints a value that may be \<^verbatim>\<open>undefined\<close>.\<close>

definition render :: "string option \<Rightarrow> string" where
  "render v = (case v of None \<Rightarrow> ''undefined'' | Some s \<Rightarrow> s)"

definition quoted :: "string \<Rightarrow> string" where
  "quoted s = [CHR 0x27] @ s @ [CHR 0x27]"

text \<open>
  \<^verbatim>\<open>xs.splice(start, 0, x)\<close>: a negative start counts from the end, and the start is
  clamped to the array.
\<close>

definition spliceInsert :: "int \<Rightarrow> 'a \<Rightarrow> 'a list \<Rightarrow> 'a list" where
  "spliceInsert start x xs =
     (let n = int (length xs);
          s = (if start < 0 then max (n + start) 0 else min start n)
      in take (nat s) xs @ [x] @ drop (nat s) xs)"

definition spliceArray :: "ref \<Rightarrow> int \<Rightarrow> string \<Rightarrow> world \<Rightarrow> world" where
  "spliceArray r start x w = w\<lparr>arrays := (arrays w)[r := spliceInsert start x (arrays w ! r)]\<rparr>"

text \<open>
  Modelled from the spec: \<^verbatim>\<open>get\<close> of @keg-hub/jsutils is not among the sources.
  \<^verbatim>\<open>get(globalConfig, `${TAP_LINKS}.${command}`)\<close> looks \<open>command\<close> up as a key in
  \<^verbatim>\<open>GlobalConfig.tapLinks\<close>, and yields \<^verbatim>\<open>undefined\<close> when the container or the key
  is missing.
\<close>

definition getTapLink :: "config \<Rightarrow> string \<Rightarrow> tapObj option" where
  "getTapLink cfg command = (case tapLinks cfg of None \<Rightarrow> None | Some links \<Rightarrow> links command)"

subsection \<open>The task resolver (findTask.js)\<close>

text \<open>
  The argument object \<^verbatim>\<open>{ globalConfig, tasks, command, options }\<close> handed to a tap's task
  module.  \<^verbatim>\<open>options\<close> is the caller's array itself, and \<^verbatim>\<open>globalConfig\<close> is the config
  object of the world.
\<close>

record loaderArgs =
  argsTasks :: taskSet
  argsCommand :: string
  argsOptions :: ref

text \<open>What the function of a task module reads in its argument when it is called.\<close>

record moduleView =
  viewGlobalConfig :: config
  viewTasks :: taskSet
  viewCommand :: string
  viewOptions :: "string list"

text \<open>
  What a call of that function does: it returns a mapping or throws (a rejected promise
  is a throw at the \<^verbatim>\<open>await\<close>), and it leaves the option array and the global config
  that it was handed with the contents \<open>optionsLeft\<close> and \<open>configLeft\<close>.  The task set
  it was handed is taken to be left as it was.
\<close>

record moduleRun =
  moduleResult :: "thrown + taskSet"
  optionsLeft :: "string list"
  configLeft :: config

text \<open>What \<^verbatim>\<open>require(taskFile)\<close> gives: a static mapping, or a function of the arguments.\<close>

datatype taskModule = StaticTasks taskSet | TaskFactory "moduleView \<Rightarrow> moduleRun"

text \<open>
  The collaborators of the resolver whose code is not among the sources, taken as
  parameters.  \<open>Inl\<close> is a thrown value.
  \<^item> \<open>requireModule file\<close>: Node's \<^verbatim>\<open>require\<close>;
  \<^item> \<open>getTask tasks command options\<close>: the located task, if any, and the option
    tokens of the returned object;
  \<^item> \<open>parseArgs task options command params config\<close>: the parsed parameters;
  \<^item> \<open>injectService taskData app injectPath\<close>: the invocation after injection;
  \<^item> \<open>validateTask task hasHelp\<close>: whether the task validates;
  \<^item> \<open>hasHelpArg token\<close>: whether the token (or \<^verbatim>\<open>undefined\<close>) asks for help.
\<close>

record resolverEnv =
  requireModule :: "string \<Rightarrow> thrown + taskModule"
  getTask :: "taskSet \<Rightarrow> string \<Rightarrow> string list \<Rightarrow> taskDef option \<times> string list"
  parseArgs :: "taskDef option \<Rightarrow> string list \<Rightarrow> string \<Rightarrow> paramSet \<Rightarrow> config \<Rightarrow> thrown + paramSet"
  injectService :: "taskData \<Rightarrow> string \<Rightarrow> string \<Rightarrow> thrown + taskData"
  validateTask :: "taskDef option \<Rightarrow> bool \<Rightarrow> bool"
  hasHelpArg :: "string option \<Rightarrow> bool"

text \<open>The argument as the function of the module reads it at the call.\<close>

definition viewOf :: "loaderArgs \<Rightarrow> world \<Rightarrow> moduleView" where
  "viewOf args w =
     \<lparr>viewGlobalConfig = globalConfig w, viewTasks = argsTasks args,
      viewCommand = argsCommand args, viewOptions = readArray w (argsOptions args)\<rparr>"

text \<open>The world after the call: the array \<^verbatim>\<open>args.options\<close> and the config as the call left them.\<close>

definition moduleEffects :: "moduleRun \<Rightarrow> ref \<Rightarrow> world \<Rightarrow> world" where
  "moduleEffects run optionsRef w =
     w\<lparr>globalConfig := configLeft run, arrays := (arrays w)[optionsRef := optionsLeft run]\<rparr>"

text \<open>
  The \<^verbatim>\<open>catch\<close> block of \<^verbatim>\<open>getCustomTasks\<close>, lines 32 to 40.  \<^verbatim>\<open>err.message\<close> is read
  after the empty line and the warning are logged; for \<^verbatim>\<open>null\<close> and \<^verbatim>\<open>undefined\<close> that
  read throws, and \<^verbatim>\<open>process.exit(1)\<close> is not reached.
\<close>

definition catchLoadError :: "thrown \<Rightarrow> string \<Rightarrow> world \<Rightarrow> taskSet outcome \<times> world" where
  "catchLoadError err taskFile w =
     (case err of
        Nullish \<Rightarrow>
          (Throw typeError,
           logLines [LogEmpty,
                     LogWarn (''Error loading custom tasks from path '' @ taskFile)] w)
      | Raised message \<Rightarrow>
          (Exit 1,
           logLines [LogEmpty,
                     LogWarn (''Error loading custom tasks from path '' @ taskFile),
                     LogError message,
                     LogEmpty] w))"

text \<open>
  \<^verbatim>\<open>getCustomTasks(args, taskFile)\<close>: a loaded function is called with \<open>args\<close>, and what
  it returns, or the loaded mapping itself, is spread over \<^verbatim>\<open>args.tasks\<close>.  Anything
  thrown by the load or by the call goes to the \<^verbatim>\<open>catch\<close> block.
\<close>

definition getCustomTasks :: "resolverEnv \<Rightarrow> loaderArgs \<Rightarrow> string \<Rightarrow> world \<Rightarrow> taskSet outcome \<times> world" where
  "getCustomTasks env args taskFile w =
     (case requireModule env taskFile of
        Inl err \<Rightarrow> catchLoadError err taskFile w
      | Inr (StaticTasks loaded) \<Rightarrow> (Return (argsTasks args ++ loaded), w)
      | Inr (TaskFactory loaded) \<Rightarrow>
          (let run = loaded (viewOf args w);
               w1 = moduleEffects run (argsOptions args) w
           in case moduleResult run of
                Inl err \<Rightarrow> catchLoadError err taskFile w1
              | Inr loadedTasks \<Rightarrow> (Return (argsTasks args ++ loadedTasks), w1)))"

text \<open>
  Lines 61 to 68 of \<^verbatim>\<open>checkLinkedTaps\<close>: the task set the tap handler is looked up in.
  The module is handed the caller's option array, which is copied only afterwards.
\<close>

definition linkedTasks :: "resolverEnv \<Rightarrow> tapObj \<Rightarrow> taskSet \<Rightarrow> string \<Rightarrow> ref \<Rightarrow> world \<Rightarrow> taskSet outcome \<times> world" where
  "linkedTasks env link baseTasks command optionsRef w =
     (case tasks link of
        None \<Rightarrow> (Return baseTasks, w)
      | Some taskFile \<Rightarrow>
          if taskFile = [] then (Return baseTasks, w)
          else getCustomTasks env
                 \<lparr>argsTasks = baseTasks, argsCommand = command, argsOptions = optionsRef\<rparr>
                 taskFile w)"

text \<open>\<^verbatim>\<open>get(taskData, 'task.inject')\<close>.\<close>

definition taskInject :: "taskDef option \<Rightarrow> bool" where
  "taskInject t = (case t of None \<Rightarrow> False | Some d \<Rightarrow> inject d)"

text \<open>
  Lines 70 to 85 of \<^verbatim>\<open>checkLinkedTaps\<close>.  \<^verbatim>\<open>[ ...options ]\<close> is a new array; the call
  \<^verbatim>\<open>getTask(allTasks, 'tap', ...options)\<close> passes the tokens, not the array, so the
  array of the returned object is again a new one, and that one is spliced.
\<close>

definition rerouteToTap :: "resolverEnv \<Rightarrow> taskSet \<Rightarrow> string \<Rightarrow> ref \<Rightarrow> world \<Rightarrow> taskData outcome \<times> world" where
  "rerouteToTap env allTasks command optionsRef w =
     (let (copyRef, w1) = newArray (readArray w optionsRef) w;
          (tapTask, tokens) = getTask env allTasks ''tap'' (readArray w1 copyRef);
          (dataRef, w2) = newArray tokens w1
      in case parseArgs env tapTask (readArray w2 dataRef) command [''tap'' \<mapsto> command]
                (globalConfig w2) of
           Inl err \<Rightarrow> (Throw err, w2)
         | Inr parsed \<Rightarrow>
             let w3 = spliceArray dataRef (int (length (readArray w2 dataRef)) - 1)
                        (''tap='' @ command) w2
             in (Return \<lparr>task = tapTask, options = readArray w3 dataRef, params = Some parsed\<rparr>,
                 w3))"

text \<open>
  \<^verbatim>\<open>checkLinkedTaps\<close>.  The link is read from the config before the module is called,
  and its path is the one handed to the service injection.
\<close>

definition checkLinkedTaps :: "resolverEnv \<Rightarrow> taskSet \<Rightarrow> string \<Rightarrow> ref \<Rightarrow> world \<Rightarrow> taskData option outcome \<times> world" where
  "checkLinkedTaps env baseTasks command optionsRef w =
     (case getTapLink (globalConfig w) command of
        None \<Rightarrow> (Return None, w)
      | Some link \<Rightarrow>
          if \<not> truthy (path link) then (Return None, w)
          else
            (case linkedTasks env link baseTasks command optionsRef w of
               (Exit status, w1) \<Rightarrow> (Exit status, w1)
             | (Throw err, w1) \<Rightarrow> (Throw err, w1)
             | (Return allTasks, w1) \<Rightarrow>
                 (case rerouteToTap env allTasks command optionsRef w1 of
                    (Exit status, w2) \<Rightarrow> (Exit status, w2)
                  | (Throw err, w2) \<Rightarrow> (Throw err, w2)
                  | (Return data, w2) \<Rightarrow>
                      if \<not> taskInject (task data) then (Return (Some data), w2)
                      else
                        (case injectService env data command (render (path link)) of
                           Inl err \<Rightarrow> (Throw err, w2)
                         | Inr injected \<Rightarrow> (Return (Some injected), w2)))))"

text \<open>\<^verbatim>\<open>options[options.length - 1]\<close>: \<^verbatim>\<open>undefined\<close> on an empty array.\<close>

definition lastToken :: "string list \<Rightarrow> string option" where
  "lastToken xs = (if xs = [] then None else Some (last xs))"

text \<open>
  Lines 114 to 124 of \<^verbatim>\<open>findTask\<close>, after the tap check has returned
  \<open>tapTaskData\<close>: the direct lookup runs only for a falsy \<open>tapTaskData\<close>.
\<close>

definition validateFound :: "resolverEnv \<Rightarrow> taskSet \<Rightarrow> string \<Rightarrow> ref \<Rightarrow> taskData option \<Rightarrow> world \<Rightarrow> found option" where
  "validateFound env baseTasks command optionsRef tapTaskData w =
     (let foundTask =
            (case tapTaskData of
               Some data \<Rightarrow> data
             | None \<Rightarrow>
                 (let (direct, tokens) = getTask env baseTasks command (readArray w optionsRef)
                  in \<lparr>task = direct, options = tokens, params = None\<rparr>));
          data = (if task foundTask \<noteq> None then Found foundTask else EmptyObject);
          dataTask = (case data of Found d \<Rightarrow> task d | EmptyObject \<Rightarrow> None)
      in if validateTask env dataTask (hasHelpArg env (lastToken (readArray w optionsRef)))
         then Some data else None)"

definition findTask :: "resolverEnv \<Rightarrow> taskSet \<Rightarrow> string \<Rightarrow> ref \<Rightarrow> world \<Rightarrow> found option outcome \<times> world" where
  "findTask env baseTasks command optionsRef w =
     (case checkLinkedTaps env baseTasks command optionsRef w of
        (Exit status, w1) \<Rightarrow> (Exit status, w1)
      | (Throw err, w1) \<Rightarrow> (Throw err, w1)
      | (Return tapTaskData, w1) \<Rightarrow>
          (Return (validateFound env baseTasks command optionsRef tapTaskData w1), w1))"

subsection \<open>The tap registry (tasks/tap/link.js)\<close>

text \<open>
  The collaborators of the registry, taken as parameters:
  \<^item> \<open>confirm message\<close>: the operator's answer to \<^verbatim>\<open>ask.confirm\<close>;
  \<^item> \<open>findPathByName root name\<close>: the folders called \<open>name\<close> found under \<open>root\<close>;
  \<^item> \<open>checkPathExists file\<close>: whether the file exists;
  \<^item> \<open>pathJoin parts\<close>: Node's \<^verbatim>\<open>path.join\<close>.
\<close>

record linkEnv =
  confirm :: "string \<Rightarrow> bool"
  findPathByName :: "string \<Rightarrow> string \<Rightarrow> string list"
  checkPathExists :: "string \<Rightarrow> bool"
  pathJoin :: "string list \<Rightarrow> string"

definition ensureAddLink :: "linkEnv \<Rightarrow> tapObj option \<Rightarrow> string \<Rightarrow> string \<Rightarrow> bool \<Rightarrow> bool" where
  "ensureAddLink env currentTap tapName tapPath silent =
     (if currentTap \<noteq> None \<and> tapPath \<noteq> []
      then \<not> silent \<and>
           confirm env (''Overwrite tap link '' @ quoted tapName @ '' => '' @ quoted tapPath @ ''?'')
      else True)"

text \<open>
  Modelled from the spec: \<^verbatim>\<open>addGlobalConfigProp\<close> of KegUtils is not among the sources.
  It writes the value under the name in the tap links of the config and persists the
  config.  The container exists when it is called.
\<close>

definition addGlobalConfigProp :: "string \<Rightarrow> tapObj \<Rightarrow> world \<Rightarrow> world" where
  "addGlobalConfigProp tapName link w =
     (let links = (case tapLinks (globalConfig w) of None \<Rightarrow> Map.empty | Some m \<Rightarrow> m);
          cfg = (globalConfig w)\<lparr>tapLinks := Some (links(tapName \<mapsto> link))\<rparr>
      in w\<lparr>globalConfig := cfg, saves := saves w @ [cfg]\<rparr>)"

definition addTapLink :: "string \<Rightarrow> tapObj \<Rightarrow> world \<Rightarrow> world" where
  "addTapLink tapName link w =
     (let w1 = (if tapLinks (globalConfig w) = None
                then w\<lparr>globalConfig := (globalConfig w)\<lparr>tapLinks := Some Map.empty\<rparr>\<rparr>
                else w);
          w2 = addGlobalConfigProp tapName link w1
      in logLines [LogSuccess (''Successfully linked tap '' @ quoted tapName @ '' => ''
                                 @ quoted (render (path link))),
                   LogEmpty] w2)"

text \<open>
  \<^verbatim>\<open>checkCustomTaskFile\<close>: \<^verbatim>\<open>path.join\<close> of a value that is not a string throws; the
  warning is the value of \<^verbatim>\<open>Logger.warn\<close>, which is \<^verbatim>\<open>undefined\<close>.
\<close>

definition checkCustomTaskFile :: "linkEnv \<Rightarrow> tapObj \<Rightarrow> world \<Rightarrow> string option outcome \<times> world" where
  "checkCustomTaskFile env link w =
     (case path link of
        None \<Rightarrow> (Throw typeError, w)
      | Some root \<Rightarrow>
          (case findPathByName env (pathJoin env [root]) ''tasks'' of
             [] \<Rightarrow> (Return None, w)
           | foundPath # others \<Rightarrow>
               if foundPath = [] then (Return None, w)
               else
                 (let indexFile = pathJoin env [foundPath, ''index.js'']
                  in if \<not> checkPathExists env indexFile
                     then (Return None,
                           logLines [LogWarn ''Linked tap task folder exists, but index.js file is missing!''] w)
                     else (Return (Some indexFile), w))))"

definition checkTapLocation :: "tapObj \<Rightarrow> string \<Rightarrow> tapObj" where
  "checkTapLocation link location =
     (if \<not> truthy (path link) \<or> path link \<noteq> Some location
      then link\<lparr>path := Some location\<rparr> else link)"

text \<open>\<^verbatim>\<open>{ ...currentTap }\<close>: a copy of the stored link, or an empty object.\<close>

definition copyTap :: "tapObj option \<Rightarrow> tapObj" where
  "copyTap currentTap =
     (case currentTap of None \<Rightarrow> \<lparr>path = None, tasks = None\<rparr> | Some link \<Rightarrow> link)"

definition buildTapObj :: "linkEnv \<Rightarrow> bool \<Rightarrow> string \<Rightarrow> string \<Rightarrow> world \<Rightarrow> tapObj option outcome \<times> world" where
  "buildTapObj env silent tapName location w =
     (let currentTap = getTapLink (globalConfig w) tapName;
          addLink = ensureAddLink env currentTap tapName location silent
      in if \<not> addLink then (Return None, w)
         else
           (let link = checkTapLocation (copyTap currentTap) location
            in case checkCustomTaskFile env link w of
                 (Exit status, w1) \<Rightarrow> (Exit status, w1)
               | (Throw err, w1) \<Rightarrow> (Throw err, w1)
               | (Return customTasksFile, w1) \<Rightarrow>
                   (Return (Some (if truthy customTasksFile
                                  then link\<lparr>tasks := customTasksFile\<rparr> else link)),
                    w1)))"

text \<open>The parameters \<^verbatim>\<open>{ name, location, silent }\<close> of the link task.\<close>

record linkParams =
  paramName :: string
  paramLocation :: string
  paramSilent :: bool

definition linkTap :: "linkEnv \<Rightarrow> linkParams \<Rightarrow> world \<Rightarrow> unit outcome \<times> world" where
  "linkTap env ps w =
     (case buildTapObj env (paramSilent ps) (paramName ps) (paramLocation ps) w of
        (Exit status, w1) \<Rightarrow> (Exit status, w1)
      | (Throw err, w1) \<Rightarrow> (Throw err, w1)
      | (Return (Some link), w1) \<Rightarrow> (Return (), addTapLink (paramName ps) link w1)
      | (Return None, w1) \<Rightarrow>
          (Return (),
           if \<not> paramSilent ps then logLines [LogWarn ''Tap link canceled!'', LogEmpty] w1
           else w1))"

subsection \<open>Readers of results\<close>

text \<open>The option tokens of the invocation a tap check returned, if it returned one.\<close>

definition resolvedOptions :: "taskData option outcome \<Rightarrow> string list option" where
  "resolvedOptions r = (case r of Return (Some data) \<Rightarrow> Some (options data) | _ \<Rightarrow> None)"

text \<open>The task of the invocation that the resolution returned, if it returned one.\<close>

definition resolvedTask :: "found option outcome \<Rightarrow> taskDef option" where
  "resolvedTask r = (case r of Return (Some (Found data)) \<Rightarrow> task data | _ \<Rightarrow> None)"

text \<open>The stored path of a tap link, if the link and its path are there.\<close>

definition storedPath :: "world \<Rightarrow> string \<Rightarrow> string option" where
  "storedPath w tapName =
     (case getTapLink (globalConfig w) tapName of None \<Rightarrow> None | Some link \<Rightarrow> path link)"

text \<open>The config with the link of one command taken out: "as if no link existed".\<close>

definition withoutLink :: "string \<Rightarrow> world \<Rightarrow> world" where
  "withoutLink command w =
     w\<lparr>globalConfig := (globalConfig w)
          \<lparr>tapLinks := map_option (\<lambda>links. links(command := None)) (tapLinks (globalConfig w))\<rparr>\<rparr>"


text \<open>The token list with one token put in front of its last element.\<close>

definition beforeLast :: "'a \<Rightarrow> 'a list \<Rightarrow> 'a list" where
  "beforeLast x xs = (if xs = [] then [x] else butlast xs @ [x, last xs])"

subsection \<open>Scenarios\<close>

text \<open>
  Modelled from the spec: \<^verbatim>\<open>getTask\<close> is not among the sources.  It looks the command
  up in the task set and passes the option tokens through.
\<close>

definition lookupTask :: "taskSet \<Rightarrow> string \<Rightarrow> string list \<Rightarrow> taskDef option \<times> string list" where
  "lookupTask allTasks command tokens = (allTasks command, tokens)"

definition tapHandler :: taskDef where
  "tapHandler = \<lparr>name = ''tap'', alias = [], description = ''Runs a task on a linked tap'', inject = False\<rparr>"

definition buildHandler :: taskDef where
  "buildHandler = \<lparr>name = ''build'', alias = [], description = ''Builds an image'', inject = False\<rparr>"

definition customTapHandler :: taskDef where
  "customTapHandler = \<lparr>name = ''tap'', alias = [], description = ''Tap handler of mytap'', inject = False\<rparr>"

definition builtinTasks :: taskSet where
  "builtinTasks = [''tap'' \<mapsto> tapHandler, ''build'' \<mapsto> buildHandler]"

definition customTasks :: taskSet where
  "customTasks = [''tap'' \<mapsto> customTapHandler]"

text \<open>A module function that pushes a token onto the option array it is handed.\<close>

definition pushyModule :: taskModule where
  "pushyModule =
     TaskFactory (\<lambda>view. \<lparr>moduleResult = Inr Map.empty,
                           optionsLeft = viewOptions view @ [''pushed''],
                           configLeft = viewGlobalConfig view\<rparr>)"

text \<open>A module function that empties the global config it is handed and throws an Error.\<close>

definition meddlerModule :: taskModule where
  "meddlerModule =
     TaskFactory (\<lambda>view. \<lparr>moduleResult = Inl (Raised (Some ''boom'')),
                           optionsLeft = viewOptions view,
                           configLeft = \<lparr>tapLinks = None\<rparr>\<rparr>)"

text \<open>
  Collaborators for the scenarios: a tap module that is a static mapping, the two
  functions above, a module that throws \<^verbatim>\<open>undefined\<close> while it loads and modules that
  are not found; a parser that returns the parameters it is given, an injector that
  changes nothing, a validator that asks for a task, and the help flags \<^verbatim>\<open>--help\<close> and
  \<^verbatim>\<open>-h\<close>.
\<close>

definition scenarioEnv :: resolverEnv where
  "scenarioEnv =
     \<lparr>requireModule = (\<lambda>file. if file = ''/repos/mytap/tasks/index.js''
                               then Inr (StaticTasks customTasks)
                               else if file = ''/repos/pushy/tasks/index.js''
                               then Inr pushyModule
                               else if file = ''/repos/meddler/tasks/index.js''
                               then Inr meddlerModule
                               else if file = ''/repos/nullish/tasks/index.js''
                               then Inl Nullish
                               else Inl (Raised (Some ''Cannot find module''))),
      getTask = lookupTask,
      parseArgs = (\<lambda>t tokens command given cfg. Inr given),
      injectService = (\<lambda>data app injectPath. Inr data),
      validateTask = (\<lambda>t hasHelp. t \<noteq> None),
      hasHelpArg = (\<lambda>token. token = Some ''--help'' \<or> token = Some ''-h'')\<rparr>"

definition scenarioWorld :: "(string \<times> tapObj) list \<Rightarrow> string list \<Rightarrow> world" where
  "scenarioWorld links tokens =
     \<lparr>globalConfig = \<lparr>tapLinks = Some (map_of links)\<rparr>, saves = [], arrays = [tokens], logs = []\<rparr>"

definition mytapLink :: tapObj where
  "mytapLink = \<lparr>path = Some ''/repos/mytap'', tasks = None\<rparr>"

definition mytapLinkWithTasks :: tapObj where
  "mytapLinkWithTasks = \<lparr>path = Some ''/repos/mytap'', tasks = Some ''/repos/mytap/tasks/index.js''\<rparr>"

definition brokenLink :: tapObj where
  "brokenLink = \<lparr>path = Some ''/repos/broken'', tasks = Some ''/repos/broken/tasks/index.js''\<rparr>"

definition pushyLink :: tapObj where
  "pushyLink = \<lparr>path = Some ''/repos/pushy'', tasks = Some ''/repos/pushy/tasks/index.js''\<rparr>"

definition meddlerLink :: tapObj where
  "meddlerLink = \<lparr>path = Some ''/repos/meddler'', tasks = Some ''/repos/meddler/tasks/index.js''\<rparr>"

definition nullishLink :: tapObj where
  "nullishLink = \<lparr>path = Some ''/repos/nullish'', tasks = Some ''/repos/nullish/tasks/index.js''\<rparr>"

definition inertLink :: tapObj where
  "inertLink = \<lparr>path = None, tasks = None\<rparr>"

text \<open>
  Collaborators for the registry scenarios: the operator answers \<open>answer\<close>, the folder
  \<^verbatim>\<open>/b/tasks\<close> exists and holds no index file, paths are joined with a slash.
\<close>

definition registryEnv :: "bool \<Rightarrow> linkEnv" where
  "registryEnv answer =
     \<lparr>confirm = (\<lambda>message. answer),
      findPathByName = (\<lambda>root folder. if root = ''/b'' \<and> folder = ''tasks'' then [''/b/tasks''] else []),
      checkPathExists = (\<lambda>file. False),
      pathJoin = (\<lambda>parts. case parts of
                              [] \<Rightarrow> ''.''
                            | [a] \<Rightarrow> (if a = [] then ''.'' else a)
                            | a # b # rest \<Rightarrow> a @ ''/'' @ b)\<rparr>"

definition linkA :: tapObj where
  "linkA = \<lparr>path = Some ''/a'', tasks = None\<rparr>"

definition linkAWithTasks :: tapObj where
  "linkAWithTasks = \<lparr>path = Some ''/a'', tasks = Some ''/a/tasks/index.js''\<rparr>"

section \<open>Properties of the resolver\<close>

subsection \<open>Auxiliary facts\<close>

lemmas scenario_defs = scenarioEnv_def scenarioWorld_def mytapLink_def mytapLinkWithTasks_def
  brokenLink_def pushyLink_def meddlerLink_def nullishLink_def inertLink_def builtinTasks_def
  customTasks_def tapHandler_def buildHandler_def customTapHandler_def lookupTask_def
  pushyModule_def meddlerModule_def

lemmas resolver_defs = checkLinkedTaps_def linkedTasks_def getCustomTasks_def catchLoadError_def
  moduleEffects_def viewOf_def rerouteToTap_def getTapLink_def truthy_def newArray_def
  readArray_def spliceArray_def spliceInsert_def taskInject_def logLines_def Let_def

lemma spliceInsert_beforeLast:
  "spliceInsert (int (length xs) - 1) x xs = beforeLast x xs"
  by (cases xs rule: rev_cases) (simp_all add: spliceInsert_def beforeLast_def Let_def)

lemma rerouteToTap_result:
  assumes "getTask env allTasks ''tap'' (readArray w optionsRef) = (tapTask, tokens)"
  shows "rerouteToTap env allTasks command optionsRef w =
           (case parseArgs env tapTask tokens command [''tap'' \<mapsto> command] (globalConfig w) of
              Inl err \<Rightarrow> (Throw err, w\<lparr>arrays := arrays w @ [readArray w optionsRef, tokens]\<rparr>)
            | Inr parsed \<Rightarrow>
                (Return \<lparr>task = tapTask, options = beforeLast (''tap='' @ command) tokens,
                         params = Some parsed\<rparr>,
                 w\<lparr>arrays := arrays w @ [readArray w optionsRef,
                                          beforeLast (''tap='' @ command) tokens]\<rparr>))"
  using assms
  by (simp add: rerouteToTap_def newArray_def readArray_def spliceArray_def Let_def
      spliceInsert_beforeLast nth_append list_update_append split: sum.splits)


lemma catchLoadError_frame:
  "catchLoadError err taskFile w = (r, w1) \<Longrightarrow>
     arrays w1 = arrays w \<and> globalConfig w1 = globalConfig w \<and> saves w1 = saves w
     \<and> r \<noteq> Return t"
  by (auto simp: catchLoadError_def logLines_def split: thrown.splits)

lemma linkedTasks_world:
  assumes "linkedTasks env link baseTasks command optionsRef w = (r, w1)"
  shows "saves w1 = saves w
    \<and> (if truthy (tasks link)
        then (case requireModule env (render (tasks link)) of
                Inr (TaskFactory loaded) \<Rightarrow>
                  arrays w1 = (arrays w)[optionsRef := optionsLeft (loaded (viewOf
                      \<lparr>argsTasks = baseTasks, argsCommand = command, argsOptions = optionsRef\<rparr> w))]
                  \<and> globalConfig w1 = configLeft (loaded (viewOf
                      \<lparr>argsTasks = baseTasks, argsCommand = command, argsOptions = optionsRef\<rparr> w))
              | _ \<Rightarrow> arrays w1 = arrays w \<and> globalConfig w1 = globalConfig w)
        else w1 = w)"
  using assms
  by (auto simp: linkedTasks_def getCustomTasks_def truthy_def render_def moduleEffects_def Let_def
      split: option.splits if_splits sum.splits taskModule.splits
      dest!: catchLoadError_frame)


lemma linkedTasks_length:
  "linkedTasks env link baseTasks command optionsRef w = (r, w1) \<Longrightarrow>
     length (arrays w1) = length (arrays w)"
  by (drule linkedTasks_world) (auto split: if_splits sum.splits taskModule.splits)




lemma validateFound_Some:
  "validateFound env baseTasks command optionsRef (Some data) w =
     (if validateTask env (task data) (hasHelpArg env (lastToken (readArray w optionsRef)))
      then Some (if task data \<noteq> None then Found data else EmptyObject) else None)"
  by (simp add: validateFound_def Let_def)

lemma validateFound_None:
  "validateFound env baseTasks command optionsRef None w =
     (case getTask env baseTasks command (readArray w optionsRef) of
        (direct, tokens) \<Rightarrow>
          if validateTask env direct (hasHelpArg env (lastToken (readArray w optionsRef)))
          then Some (if direct \<noteq> None
                     then Found \<lparr>task = direct, options = tokens, params = None\<rparr>
                     else EmptyObject)
          else None)"
  by (simp add: validateFound_def Let_def split: prod.splits)

lemma checkLinkedTaps_reroute:
  assumes "getTapLink (globalConfig w) command = Some link"
    and "truthy (path link)"
    and "linkedTasks env link baseTasks command optionsRef w = (Return allTasks, w1)"
    and "getTask env allTasks ''tap'' (readArray w1 optionsRef) = (tapTask, tokens)"
  shows "checkLinkedTaps env baseTasks command optionsRef w =
           (case parseArgs env tapTask tokens command [''tap'' \<mapsto> command] (globalConfig w1) of
              Inl err \<Rightarrow>
                (Throw err, w1\<lparr>arrays := arrays w1 @ [readArray w1 optionsRef, tokens]\<rparr>)
            | Inr parsed \<Rightarrow>
                (if \<not> taskInject tapTask
                 then Return (Some \<lparr>task = tapTask,
                                     options = beforeLast (''tap='' @ command) tokens,
                                     params = Some parsed\<rparr>)
                 else (case injectService env
                              \<lparr>task = tapTask, options = beforeLast (''tap='' @ command) tokens,
                               params = Some parsed\<rparr> command (render (path link)) of
                         Inl err \<Rightarrow> Throw err
                       | Inr injected \<Rightarrow> Return (Some injected)),
                 w1\<lparr>arrays := arrays w1 @ [readArray w1 optionsRef,
                                           beforeLast (''tap='' @ command) tokens]\<rparr>))"
  using rerouteToTap_result [OF assms(4), of command] assms(1,2,3)
  by (simp add: checkLinkedTaps_def split: sum.splits)

lemma checkLinkedTaps_inert:
  assumes "getTapLink (globalConfig w) command = None
           \<or> (\<exists>link. getTapLink (globalConfig w) command = Some link \<and> \<not> truthy (path link))"
  shows "checkLinkedTaps env baseTasks command optionsRef w = (Return None, w)"
  using assms by (auto simp: checkLinkedTaps_def)

lemma getTapLink_withoutLink:
  "getTapLink (globalConfig (withoutLink command w)) command = None"
  by (simp add: getTapLink_def withoutLink_def split: option.splits)

lemma readArray_withoutLink:
  "readArray (withoutLink c w) r = readArray w r"
  by (simp add: withoutLink_def readArray_def)

lemma validateFound_withoutLink:
  "validateFound env baseTasks command optionsRef t (withoutLink c w)
     = validateFound env baseTasks command optionsRef t w"
  unfolding validateFound_def readArray_withoutLink by (rule refl)

subsection \<open>The synthetic tap token\<close>

text \<open>
  C1 (as amended).  When the command is a linked tap, the tap handler was found with the
  tokens \<open>tokens\<close> and the arguments parse, the invocation that is returned (or handed to
  the service injection, when the handler asks for it) has the option list \<open>tokens\<close>
  with \<^verbatim>\<open>tap=<command>\<close> put immediately before its last token: the list grows by one,
  the new token is the second-to-last element, and the last token, a help flag or any
  other, stays last.  On an empty list the new token is the only element.
\<close>

theorem reroute_inserts_tap_before_last:
  assumes "getTapLink (globalConfig w) command = Some link"
    and "truthy (path link)"
    and "linkedTasks env link baseTasks command optionsRef w = (Return allTasks, w1)"
    and "getTask env allTasks ''tap'' (readArray w1 optionsRef) = (tapTask, tokens)"
    and "parseArgs env tapTask tokens command [''tap'' \<mapsto> command] (globalConfig w1) = Inr parsed"
  shows "fst (checkLinkedTaps env baseTasks command optionsRef w) =
           (if \<not> taskInject tapTask
            then Return (Some \<lparr>task = tapTask, options = beforeLast (''tap='' @ command) tokens,
                                params = Some parsed\<rparr>)
            else (case injectService env
                         \<lparr>task = tapTask, options = beforeLast (''tap='' @ command) tokens,
                          params = Some parsed\<rparr> command (render (path link)) of
                    Inl err \<Rightarrow> Throw err
                  | Inr injected \<Rightarrow> Return (Some injected)))
         \<and> length (beforeLast (''tap='' @ command) tokens) = Suc (length tokens)
         \<and> beforeLast (''tap='' @ command) tokens ! (length tokens - 1) = ''tap='' @ command
         \<and> (tokens \<noteq> [] \<longrightarrow> last (beforeLast (''tap='' @ command) tokens) = last tokens)"
  using checkLinkedTaps_reroute [OF assms(1,2,3,4)] assms(5)
  by (simp add: beforeLast_def nth_append)

text \<open>
  The scenario of the spec, through the theorem: the link \<^verbatim>\<open>mytap\<close>, the command
  \<^verbatim>\<open>mytap\<close> and the options \<^verbatim>\<open>["--verbose"]\<close> give \<^verbatim>\<open>["tap=mytap", "--verbose"]\<close>;
  with a trailing \<^verbatim>\<open>--help\<close> the help flag stays last.
\<close>

theorem reroute_inserts_tap_before_last_witness:
  "resolvedOptions (fst (checkLinkedTaps scenarioEnv builtinTasks ''mytap'' 0
      (scenarioWorld [(''mytap'', mytapLink)] [''--verbose''])))
    = Some [''tap=mytap'', ''--verbose'']
   \<and> resolvedOptions (fst (checkLinkedTaps scenarioEnv builtinTasks ''mytap'' 0
      (scenarioWorld [(''mytap'', mytapLink)] [''--verbose'', ''--help''])))
    = Some [''--verbose'', ''tap=mytap'', ''--help'']"
  using reroute_inserts_tap_before_last
      [of "scenarioWorld [(''mytap'', mytapLink)] [''--verbose'']" "''mytap''" mytapLink
      scenarioEnv builtinTasks 0 builtinTasks "scenarioWorld [(''mytap'', mytapLink)] [''--verbose'']"
      "Some tapHandler" "[''--verbose'']" "[''tap'' \<mapsto> ''mytap'']"]
    reroute_inserts_tap_before_last
      [of "scenarioWorld [(''mytap'', mytapLink)] [''--verbose'', ''--help'']" "''mytap''" mytapLink
      scenarioEnv builtinTasks 0 builtinTasks
      "scenarioWorld [(''mytap'', mytapLink)] [''--verbose'', ''--help'']"
      "Some tapHandler" "[''--verbose'', ''--help'']" "[''tap'' \<mapsto> ''mytap'']"]
  by (simp add: linkedTasks_def getTapLink_def truthy_def readArray_def taskInject_def
      resolvedOptions_def beforeLast_def scenario_defs)

text \<open>
  C1 as stated fails on its own example: the options do not become
  \<^verbatim>\<open>["--verbose", "tap=mytap"]\<close>, since \<^verbatim>\<open>--verbose\<close> is the last token and stays last.
\<close>

theorem reroute_verbose_scenario_counterexample:
  "resolvedOptions (fst (checkLinkedTaps scenarioEnv builtinTasks ''mytap'' 0
      (scenarioWorld [(''mytap'', mytapLink)] [''--verbose''])))
    \<noteq> Some [''--verbose'', ''tap=mytap'']"
  by (simp add: resolver_defs resolvedOptions_def scenario_defs)

subsection \<open>The caller's option array\<close>




subsection \<open>Tap links before built-in tasks\<close>

text \<open>
  C4.  For a command that is a key of the tap links with a non-empty path, whether or
  not a built-in task has the same name, the result of \<^verbatim>\<open>findTask\<close> is fixed by the
  tap path alone.  When the task set of the link loads and \<^verbatim>\<open>getTask\<close> gives the task
  \<open>tapTask\<close> for the name \<^verbatim>\<open>tap\<close> in it, a parse error propagates, and otherwise the
  invocation that is validated and returned is the one of \<open>tapTask\<close> with the synthetic
  token (after the service injection, when \<open>tapTask\<close> asks for it).  When the load
  exits or throws, so does \<^verbatim>\<open>findTask\<close>.  The tap check never yields nothing for such a
  command, so the direct lookup of the command, which runs only then, does not run.
\<close>

theorem tap_link_precedes_direct_lookup:
  assumes "getTapLink (globalConfig w) command = Some link"
    and "truthy (path link)"
    and "optionsRef < length (arrays w)"
  shows "(\<forall>allTasks w1 tapTask tokens.
            linkedTasks env link baseTasks command optionsRef w = (Return allTasks, w1)
            \<and> getTask env allTasks ''tap'' (readArray w1 optionsRef) = (tapTask, tokens) \<longrightarrow>
            fst (findTask env baseTasks command optionsRef w) =
              (case parseArgs env tapTask tokens command [''tap'' \<mapsto> command] (globalConfig w1) of
                 Inl err \<Rightarrow> Throw err
               | Inr parsed \<Rightarrow>
                   (let help = hasHelpArg env (lastToken (readArray w1 optionsRef));
                        data = \<lparr>task = tapTask, options = beforeLast (''tap='' @ command) tokens,
                                params = Some parsed\<rparr>
                    in if \<not> taskInject tapTask
                       then Return (if validateTask env tapTask help
                                    then Some (if tapTask \<noteq> None then Found data else EmptyObject)
                                    else None)
                       else (case injectService env data command (render (path link)) of
                               Inl err \<Rightarrow> Throw err
                             | Inr injected \<Rightarrow>
                                 Return (if validateTask env (task injected) help
                                         then Some (if task injected \<noteq> None then Found injected
                                                    else EmptyObject)
                                         else None)))))
    \<and> (\<forall>status w1. linkedTasks env link baseTasks command optionsRef w = (Exit status, w1) \<longrightarrow>
            findTask env baseTasks command optionsRef w = (Exit status, w1))
    \<and> (\<forall>err w1. linkedTasks env link baseTasks command optionsRef w = (Throw err, w1) \<longrightarrow>
            findTask env baseTasks command optionsRef w = (Throw err, w1))
    \<and> fst (checkLinkedTaps env baseTasks command optionsRef w) \<noteq> Return None"
proof -
  have a: "fst (findTask env baseTasks command optionsRef w) =
              (case parseArgs env tapTask tokens command [''tap'' \<mapsto> command] (globalConfig w1) of
                 Inl err \<Rightarrow> Throw err
               | Inr parsed \<Rightarrow>
                   (let help = hasHelpArg env (lastToken (readArray w1 optionsRef));
                        data = \<lparr>task = tapTask, options = beforeLast (''tap='' @ command) tokens,
                                params = Some parsed\<rparr>
                    in if \<not> taskInject tapTask
                       then Return (if validateTask env tapTask help
                                    then Some (if tapTask \<noteq> None then Found data else EmptyObject)
                                    else None)
                       else (case injectService env data command (render (path link)) of
                               Inl err \<Rightarrow> Throw err
                             | Inr injected \<Rightarrow>
                                 Return (if validateTask env (task injected) help
                                         then Some (if task injected \<noteq> None then Found injected
                                                    else EmptyObject)
                                         else None))))"
    if lt: "linkedTasks env link baseTasks command optionsRef w = (Return allTasks, w1)"
      and gt: "getTask env allTasks ''tap'' (readArray w1 optionsRef) = (tapTask, tokens)"
    for allTasks w1 tapTask tokens
  proof -
    have len: "optionsRef < length (arrays w1)"
      using linkedTasks_length [OF lt] assms(3) by simp
    have read: "readArray (w1\<lparr>arrays := arrays w1 @ ys\<rparr>) optionsRef = readArray w1 optionsRef"
      for ys
      using len by (simp add: readArray_def nth_append)
    show ?thesis
      using checkLinkedTaps_reroute [OF assms(1,2) lt gt] read
      by (auto simp: findTask_def validateFound_Some Let_def split: sum.splits)
  qed
  have b: "findTask env baseTasks command optionsRef w = (Exit status, w1)"
    if "linkedTasks env link baseTasks command optionsRef w = (Exit status, w1)" for status w1
    using that assms(1,2) by (simp add: findTask_def checkLinkedTaps_def)
  have c: "findTask env baseTasks command optionsRef w = (Throw err, w1)"
    if "linkedTasks env link baseTasks command optionsRef w = (Throw err, w1)" for err w1
    using that assms(1,2) by (simp add: findTask_def checkLinkedTaps_def)
  have d: "fst (checkLinkedTaps env baseTasks command optionsRef w) \<noteq> Return None"
    using assms(1,2)
    by (auto simp: checkLinkedTaps_def split: prod.splits outcome.splits sum.splits)
  from a b c d show ?thesis by blast
qed

text \<open>
  With a link called \<^verbatim>\<open>build\<close> and a built-in task called \<^verbatim>\<open>build\<close>, the resolved task is
  the tap handler.
\<close>

theorem tap_link_precedes_direct_lookup_witness:
  "builtinTasks ''build'' = Some buildHandler
   \<and> resolvedTask (fst (findTask scenarioEnv builtinTasks ''build'' 0
        (scenarioWorld [(''build'', mytapLink)] [''--verbose'']))) = Some tapHandler"
proof -
  let ?w = "scenarioWorld [(''build'', mytapLink)] [''--verbose'']"
  have h: "getTapLink (globalConfig ?w) ''build'' = Some mytapLink" "truthy (path mytapLink)"
    "0 < length (arrays ?w)"
    by (simp_all add: getTapLink_def truthy_def scenarioWorld_def mytapLink_def)
  have lt: "linkedTasks scenarioEnv mytapLink builtinTasks ''build'' 0 ?w = (Return builtinTasks, ?w)"
    by (simp add: linkedTasks_def mytapLink_def)
  have gt: "getTask scenarioEnv builtinTasks ''tap'' (readArray ?w 0) = (Some tapHandler, [''--verbose''])"
    by (simp add: scenarioEnv_def lookupTask_def builtinTasks_def readArray_def scenarioWorld_def)
  from tap_link_precedes_direct_lookup [OF h, of scenarioEnv builtinTasks] lt gt
  have "fst (findTask scenarioEnv builtinTasks ''build'' 0 ?w) =
          (case parseArgs scenarioEnv (Some tapHandler) [''--verbose''] ''build''
                  [''tap'' \<mapsto> ''build''] (globalConfig ?w) of
             Inl err \<Rightarrow> Throw err
           | Inr parsed \<Rightarrow>
               (let help = hasHelpArg scenarioEnv (lastToken (readArray ?w 0));
                    data = \<lparr>task = Some tapHandler,
                            options = beforeLast (''tap='' @ ''build'') [''--verbose''],
                            params = Some parsed\<rparr>
                in if \<not> taskInject (Some tapHandler)
                   then Return (if validateTask scenarioEnv (Some tapHandler) help
                                then Some (if Some tapHandler \<noteq> None then Found data else EmptyObject)
                                else None)
                   else (case injectService scenarioEnv data ''build'' (render (path mytapLink)) of
                           Inl err \<Rightarrow> Throw err
                         | Inr injected \<Rightarrow>
                             Return (if validateTask scenarioEnv (task injected) help
                                     then Some (if task injected \<noteq> None then Found injected
                                                else EmptyObject)
                                     else None))))"
    by blast
  then show ?thesis
    by (simp add: resolvedTask_def scenarioEnv_def builtinTasks_def taskInject_def tapHandler_def
        Let_def)
qed

subsection \<open>Links without a path\<close>

text \<open>
  C5.  When the command has no entry in the tap links, or its entry has no path (none
  at all, or the empty string), the tap check returns false and changes nothing, and
  \<^verbatim>\<open>findTask\<close> returns what the direct lookup of the command in the base task set
  gives; that is the result it returns when the entry is taken out of the config.
\<close>

theorem inert_link_falls_through:
  assumes "getTapLink (globalConfig w) command = None
           \<or> (\<exists>link. getTapLink (globalConfig w) command = Some link \<and> \<not> truthy (path link))"
  shows "checkLinkedTaps env baseTasks command optionsRef w = (Return None, w)
    \<and> findTask env baseTasks command optionsRef w =
          (Return (case getTask env baseTasks command (readArray w optionsRef) of
                     (direct, tokens) \<Rightarrow>
                       if validateTask env direct
                            (hasHelpArg env (lastToken (readArray w optionsRef)))
                       then Some (if direct \<noteq> None
                                  then Found \<lparr>task = direct, options = tokens, params = None\<rparr>
                                  else EmptyObject)
                       else None), w)
    \<and> fst (findTask env baseTasks command optionsRef w)
         = fst (findTask env baseTasks command optionsRef (withoutLink command w))"
proof -
  have a: "checkLinkedTaps env baseTasks command optionsRef w = (Return None, w)"
    using assms by (rule checkLinkedTaps_inert)
  have b: "checkLinkedTaps env baseTasks command optionsRef (withoutLink command w)
             = (Return None, withoutLink command w)"
    by (rule checkLinkedTaps_inert) (simp add: getTapLink_withoutLink)
  show ?thesis
    by (simp add: a b findTask_def validateFound_None [symmetric] validateFound_withoutLink)
qed

text \<open>A link \<^verbatim>\<open>build\<close> without a path: the built-in task \<^verbatim>\<open>build\<close> is resolved.\<close>

theorem inert_link_falls_through_witness:
  "fst (findTask scenarioEnv builtinTasks ''build'' 0
        (scenarioWorld [(''build'', inertLink)] [''--verbose'']))
     = Return (Some (Found \<lparr>task = Some buildHandler, options = [''--verbose''], params = None\<rparr>))"
  using inert_link_falls_through [of "scenarioWorld [(''build'', inertLink)] [''--verbose'']" "''build''"
      scenarioEnv builtinTasks 0]
  by (simp add: getTapLink_def truthy_def readArray_def lastToken_def scenario_defs)

subsection \<open>Custom tasks of a tap\<close>



subsection \<open>A tap module that throws\<close>

text \<open>
  C8 (as amended).  Let the command be a linked tap with a path and a custom-task
  entry, and let the module throw a value other than \<^verbatim>\<open>null\<close> and \<^verbatim>\<open>undefined\<close>, while it
  is loaded or, being a function, when it is called.  Then \<^verbatim>\<open>findTask\<close> ends the process
  with status 1, and the log gains an empty line, the warning with the path of the
  module, the message of the thrown value and an empty line.  \<^verbatim>\<open>findTask\<close> itself
  writes nothing else: nothing is saved, and the global config and the option array
  are as they were when the load threw, and as the function left them when the call
  threw.
\<close>

theorem failing_tap_module_is_fatal:
  assumes "getTapLink (globalConfig w) command = Some link"
    and "truthy (path link)"
    and "tasks link = Some taskFile"
    and "taskFile \<noteq> []"
  shows "(\<forall>message. requireModule env taskFile = Inl (Raised message) \<longrightarrow>
            findTask env baseTasks command optionsRef w =
              (Exit 1,
               w\<lparr>logs := logs w @ [LogEmpty,
                                    LogWarn (''Error loading custom tasks from path '' @ taskFile),
                                    LogError message,
                                    LogEmpty]\<rparr>))
    \<and> (\<forall>factory run message.
            requireModule env taskFile = Inr (TaskFactory factory)
            \<and> factory (viewOf \<lparr>argsTasks = baseTasks, argsCommand = command,
                                 argsOptions = optionsRef\<rparr> w) = run
            \<and> moduleResult run = Inl (Raised message) \<longrightarrow>
            findTask env baseTasks command optionsRef w =
              (Exit 1,
               w\<lparr>globalConfig := configLeft run,
                  arrays := (arrays w)[optionsRef := optionsLeft run],
                  logs := logs w @ [LogEmpty,
                                    LogWarn (''Error loading custom tasks from path '' @ taskFile),
                                    LogError message,
                                    LogEmpty]\<rparr>))"
proof -
  have a: "linkedTasks env link baseTasks command optionsRef w =
              (Exit 1,
               w\<lparr>logs := logs w @ [LogEmpty,
                                    LogWarn (''Error loading custom tasks from path '' @ taskFile),
                                    LogError message,
                                    LogEmpty]\<rparr>)"
    if "requireModule env taskFile = Inl (Raised message)" for message
    using that assms(3,4)
    by (simp add: linkedTasks_def getCustomTasks_def catchLoadError_def logLines_def)
  have b: "linkedTasks env link baseTasks command optionsRef w =
              (Exit 1,
               w\<lparr>globalConfig := configLeft run,
                  arrays := (arrays w)[optionsRef := optionsLeft run],
                  logs := logs w @ [LogEmpty,
                                    LogWarn (''Error loading custom tasks from path '' @ taskFile),
                                    LogError message,
                                    LogEmpty]\<rparr>)"
    if "requireModule env taskFile = Inr (TaskFactory factory)"
      and "factory (viewOf \<lparr>argsTasks = baseTasks, argsCommand = command,
                                 argsOptions = optionsRef\<rparr> w) = run"
      and "moduleResult run = Inl (Raised message)" for factory run message
    using that assms(3,4)
    by (simp add: linkedTasks_def getCustomTasks_def catchLoadError_def logLines_def
        moduleEffects_def Let_def)
  show ?thesis
    using a b assms(1,2) by (auto simp: findTask_def checkLinkedTaps_def)
qed

text \<open>The link \<^verbatim>\<open>broken\<close>, whose module cannot be found.\<close>

theorem failing_tap_module_is_fatal_witness:
  "findTask scenarioEnv builtinTasks ''broken'' 0
      (scenarioWorld [(''broken'', brokenLink)] [''--verbose'']) =
     (Exit 1,
      \<lparr>globalConfig = \<lparr>tapLinks = Some (map_of [(''broken'', brokenLink)])\<rparr>, saves = [],
       arrays = [[''--verbose'']],
       logs = [LogEmpty,
               LogWarn ''Error loading custom tasks from path /repos/broken/tasks/index.js'',
               LogError (Some ''Cannot find module''),
               LogEmpty]\<rparr>)"
proof -
  have h: "getTapLink (globalConfig (scenarioWorld [(''broken'', brokenLink)] [''--verbose'']))
             ''broken'' = Some brokenLink"
    "truthy (path brokenLink)" "tasks brokenLink = Some ''/repos/broken/tasks/index.js''"
    "''/repos/broken/tasks/index.js'' \<noteq> []"
    by (simp_all add: getTapLink_def truthy_def scenarioWorld_def brokenLink_def)
  have r: "requireModule scenarioEnv ''/repos/broken/tasks/index.js''
             = Inl (Raised (Some ''Cannot find module''))"
    by (simp add: scenarioEnv_def)
  from failing_tap_module_is_fatal [OF h, of scenarioEnv builtinTasks 0] r
  have "findTask scenarioEnv builtinTasks ''broken'' 0
      (scenarioWorld [(''broken'', brokenLink)] [''--verbose'']) =
     (Exit 1,
      (scenarioWorld [(''broken'', brokenLink)] [''--verbose''])
        \<lparr>logs := logs (scenarioWorld [(''broken'', brokenLink)] [''--verbose''])
                  @ [LogEmpty,
                     LogWarn (''Error loading custom tasks from path ''
                                @ ''/repos/broken/tasks/index.js''),
                     LogError (Some ''Cannot find module''),
                     LogEmpty]\<rparr>)"
    by blast
  then show ?thesis by (simp add: scenarioWorld_def)
qed

text \<open>
  C8 as stated fails twice.  A module function that empties the config it is handed
  and then throws ends the process with status 1 and a changed config.  A module that
  throws \<^verbatim>\<open>undefined\<close> makes the \<^verbatim>\<open>catch\<close> block throw when it reads the message, so
  the exit is not reached.
\<close>

theorem failing_tap_module_counterexample:
  "fst (findTask scenarioEnv builtinTasks ''meddler'' 0
          (scenarioWorld [(''meddler'', meddlerLink)] [''--verbose''])) = Exit 1
   \<and> globalConfig (snd (findTask scenarioEnv builtinTasks ''meddler'' 0
          (scenarioWorld [(''meddler'', meddlerLink)] [''--verbose''])))
       \<noteq> globalConfig (scenarioWorld [(''meddler'', meddlerLink)] [''--verbose''])
   \<and> fst (findTask scenarioEnv builtinTasks ''nullish'' 0
          (scenarioWorld [(''nullish'', nullishLink)] [''--verbose''])) = Throw typeError"
  by (simp add: findTask_def resolver_defs scenario_defs)

section \<open>Properties of the registry\<close>

subsection \<open>Auxiliary facts\<close>

lemmas registry_defs = registryEnv_def scenarioWorld_def linkA_def linkAWithTasks_def

lemmas link_defs = buildTapObj_def ensureAddLink_def checkCustomTaskFile_def checkTapLocation_def
  copyTap_def getTapLink_def truthy_def logLines_def Let_def

lemma checkCustomTaskFile_frame:
  "checkCustomTaskFile env link w = (r, w1) \<Longrightarrow>
     globalConfig w1 = globalConfig w \<and> saves w1 = saves w \<and> arrays w1 = arrays w"
  by (auto simp: checkCustomTaskFile_def logLines_def Let_def split: option.splits list.splits if_splits)

lemma buildTapObj_frame:
  "buildTapObj env silent tapName location w = (r, w1) \<Longrightarrow>
     globalConfig w1 = globalConfig w \<and> saves w1 = saves w \<and> arrays w1 = arrays w"
  by (auto simp: buildTapObj_def Let_def split: if_splits prod.splits outcome.splits
      dest!: checkCustomTaskFile_frame)

lemma buildTapObj_declined:
  assumes "\<not> ensureAddLink env (getTapLink (globalConfig w) tapName) tapName location silent"
  shows "buildTapObj env silent tapName location w = (Return None, w)"
  using assms by (simp add: buildTapObj_def Let_def)

lemma checkTapLocation_path:
  "path (checkTapLocation link location) = Some location"
  by (auto simp: checkTapLocation_def)

lemma checkTapLocation_tasks:
  "tasks (checkTapLocation link location) = tasks link"
  by (auto simp: checkTapLocation_def)

subsection \<open>The overwrite check in silent mode\<close>

text \<open>
  C2 (as amended).  With a link already stored and a non-empty new path, the overwrite
  check in silent mode returns false, whatever the operator would answer; with no link
  stored it returns true, silent or not.  Building the tap object in silent mode never
  changes the global config and never saves it.  With a link stored under the name and
  a non-empty location, building in silent mode returns false, and the link task run in
  silent mode leaves the whole world, and so the stored path, as it was.
\<close>

theorem silent_never_overwrites:
  "(currentTap \<noteq> None \<and> tapPath \<noteq> [] \<longrightarrow> \<not> ensureAddLink env currentTap tapName tapPath True)
   \<and> ensureAddLink env None tapName tapPath silent
   \<and> globalConfig (snd (buildTapObj env True tapName location w)) = globalConfig w
   \<and> saves (snd (buildTapObj env True tapName location w)) = saves w
   \<and> (getTapLink (globalConfig w) tapName \<noteq> None \<and> location \<noteq> [] \<longrightarrow>
        buildTapObj env True tapName location w = (Return None, w)
        \<and> linkTap env \<lparr>paramName = tapName, paramLocation = location, paramSilent = True\<rparr> w
            = (Return (), w))"
proof -
  obtain r w1 where run: "buildTapObj env True tapName location w = (r, w1)"
    by (cases "buildTapObj env True tapName location w")
  from buildTapObj_frame [OF run] run
  have frame: "globalConfig (snd (buildTapObj env True tapName location w)) = globalConfig w"
    "saves (snd (buildTapObj env True tapName location w)) = saves w"
    by simp_all
  have silent: "getTapLink (globalConfig w) tapName \<noteq> None \<and> location \<noteq> [] \<longrightarrow>
        buildTapObj env True tapName location w = (Return None, w)"
    by (simp add: buildTapObj_declined ensureAddLink_def)
  show ?thesis
    using frame silent by (auto simp: ensureAddLink_def linkTap_def)
qed

text \<open>The link \<^verbatim>\<open>x\<close> at \<^verbatim>\<open>/a\<close>, linked again in silent mode at \<^verbatim>\<open>/b\<close>.\<close>

theorem silent_never_overwrites_witness:
  "linkTap (registryEnv True) \<lparr>paramName = ''x'', paramLocation = ''/b'', paramSilent = True\<rparr>
      (scenarioWorld [(''x'', linkA)] [])
     = (Return (), scenarioWorld [(''x'', linkA)] [])
   \<and> storedPath (scenarioWorld [(''x'', linkA)] []) ''x'' = Some ''/a''"
proof -
  have existing: "getTapLink (globalConfig (scenarioWorld [(''x'', linkA)] [])) ''x'' \<noteq> None"
    by (simp add: getTapLink_def scenarioWorld_def)
  have stored: "storedPath (scenarioWorld [(''x'', linkA)] []) ''x'' = Some ''/a''"
    by (simp add: storedPath_def getTapLink_def scenarioWorld_def linkA_def)
  from silent_never_overwrites [of "Some linkA" "''/b''" "registryEnv True" "''x''" True "''/b''"
      "scenarioWorld [(''x'', linkA)] []"] existing stored
  show ?thesis by simp
qed

text \<open>
  C2 as stated fails for the empty location, which differs from the stored path
  \<^verbatim>\<open>/a\<close>: the overwrite check passes also in silent mode, and the link task stores the
  empty path and saves the config.
\<close>

theorem silent_empty_location_counterexample:
  "storedPath (scenarioWorld [(''x'', linkA)] []) ''x'' = Some ''/a''
   \<and> storedPath (snd (linkTap (registryEnv False)
         \<lparr>paramName = ''x'', paramLocation = [], paramSilent = True\<rparr>
         (scenarioWorld [(''x'', linkA)] []))) ''x'' = Some []
   \<and> length (saves (snd (linkTap (registryEnv False)
         \<lparr>paramName = ''x'', paramLocation = [], paramSilent = True\<rparr>
         (scenarioWorld [(''x'', linkA)] [])))) = 1"
  by (simp add: linkTap_def addTapLink_def addGlobalConfigProp_def storedPath_def
      link_defs registry_defs)

subsection \<open>A declined overwrite\<close>

text \<open>
  C3.  With a link stored under the name, a non-empty location, silent mode off and an
  operator who answers no to the overwrite question, building the tap object returns
  false and changes nothing; the link task then only logs that the link was canceled:
  the global config is the same and nothing is saved.
\<close>

theorem declined_overwrite_changes_nothing:
  assumes "getTapLink (globalConfig w) tapName \<noteq> None"
    and "location \<noteq> []"
    and "\<not> silent"
    and "\<not> confirm env (''Overwrite tap link '' @ quoted tapName @ '' => '' @ quoted location @ ''?'')"
  shows "buildTapObj env silent tapName location w = (Return None, w)
    \<and> linkTap env \<lparr>paramName = tapName, paramLocation = location, paramSilent = silent\<rparr> w
        = (Return (), w\<lparr>logs := logs w @ [LogWarn ''Tap link canceled!'', LogEmpty]\<rparr>)"
  using assms
  by (auto simp: ensureAddLink_def buildTapObj_def linkTap_def logLines_def Let_def)

text \<open>
  The scenario of the spec: the link \<^verbatim>\<open>x\<close> at \<^verbatim>\<open>/a\<close>, the location \<^verbatim>\<open>/b\<close>, the operator
  declines; the stored path is still \<^verbatim>\<open>/a\<close>.
\<close>

theorem declined_overwrite_changes_nothing_witness:
  "fst (buildTapObj (registryEnv False) False ''x'' ''/b'' (scenarioWorld [(''x'', linkA)] []))
     = Return None
   \<and> storedPath (snd (linkTap (registryEnv False)
         \<lparr>paramName = ''x'', paramLocation = ''/b'', paramSilent = False\<rparr>
         (scenarioWorld [(''x'', linkA)] []))) ''x'' = Some ''/a''
   \<and> saves (snd (linkTap (registryEnv False)
         \<lparr>paramName = ''x'', paramLocation = ''/b'', paramSilent = False\<rparr>
         (scenarioWorld [(''x'', linkA)] []))) = []"
proof -
  have existing: "getTapLink (globalConfig (scenarioWorld [(''x'', linkA)] [])) ''x'' \<noteq> None"
    by (simp add: getTapLink_def scenarioWorld_def)
  have declines: "\<not> confirm (registryEnv False)
      (''Overwrite tap link '' @ quoted ''x'' @ '' => '' @ quoted ''/b'' @ ''?'')"
    by (simp add: registryEnv_def)
  have "buildTapObj (registryEnv False) False ''x'' ''/b'' (scenarioWorld [(''x'', linkA)] [])
          = (Return None, scenarioWorld [(''x'', linkA)] [])
        \<and> linkTap (registryEnv False)
            \<lparr>paramName = ''x'', paramLocation = ''/b'', paramSilent = False\<rparr>
            (scenarioWorld [(''x'', linkA)] [])
          = (Return (), (scenarioWorld [(''x'', linkA)] [])
               \<lparr>logs := logs (scenarioWorld [(''x'', linkA)] [])
                          @ [LogWarn ''Tap link canceled!'', LogEmpty]\<rparr>)"
    by (rule declined_overwrite_changes_nothing [OF existing _ _ declines]) simp_all
  then show ?thesis
    by (simp add: storedPath_def getTapLink_def scenarioWorld_def linkA_def)
qed

subsection \<open>The path of a built tap object\<close>

text \<open>
  C9.  Whenever building the tap object returns an object and not false, the path of
  that object is the location that was passed in, whatever path was stored before and
  also when the location is the empty string.
\<close>

theorem built_tap_has_supplied_location:
  "buildTapObj env silent tapName location w = (Return (Some link), w1) \<Longrightarrow>
     path link = Some location"
  by (auto simp: buildTapObj_def Let_def checkTapLocation_path
      split: if_splits prod.splits outcome.splits)

text \<open>
  The link \<^verbatim>\<open>x\<close> at \<^verbatim>\<open>/a\<close>: confirmed at \<^verbatim>\<open>/b\<close> the object has the path \<^verbatim>\<open>/b\<close>; with
  the empty location no question is asked and the object has the empty path.
\<close>

theorem built_tap_has_supplied_location_witness:
  "(case fst (buildTapObj (registryEnv True) False ''x'' ''/b'' (scenarioWorld [(''x'', linkA)] [])) of
      Return (Some link) \<Rightarrow> path link = Some ''/b'' | _ \<Rightarrow> False)
   \<and> (case fst (buildTapObj (registryEnv True) True ''x'' [] (scenarioWorld [(''x'', linkA)] [])) of
      Return (Some link) \<Rightarrow> path link = Some [] | _ \<Rightarrow> False)"
proof -
  have "\<exists>link w1. buildTapObj (registryEnv True) False ''x'' ''/b'' (scenarioWorld [(''x'', linkA)] [])
          = (Return (Some link), w1)"
    by (simp add: link_defs registry_defs)
  then obtain link w1 where
    a: "buildTapObj (registryEnv True) False ''x'' ''/b'' (scenarioWorld [(''x'', linkA)] [])
          = (Return (Some link), w1)"
    by blast
  have "\<exists>link w1. buildTapObj (registryEnv True) True ''x'' [] (scenarioWorld [(''x'', linkA)] [])
          = (Return (Some link), w1)"
    by (simp add: link_defs registry_defs)
  then obtain link' w1' where
    b: "buildTapObj (registryEnv True) True ''x'' [] (scenarioWorld [(''x'', linkA)] [])
          = (Return (Some link'), w1')"
    by blast
  from built_tap_has_supplied_location [OF a] built_tap_has_supplied_location [OF b] show ?thesis
    by (simp add: a b)
qed

subsection \<open>A tasks folder without an index file\<close>

text \<open>
  C7 (as amended).  When a folder called \<^verbatim>\<open>tasks\<close> is found under the location and it
  holds no \<^verbatim>\<open>index.js\<close>, locating the custom-task entry logs a warning and returns no
  entry, without an error.  Whenever the overwrite check passes, the registration then
  still succeeds: building the tap object returns a link with the location as its path
  and with the custom-task entry that was stored under the name before, if any, and
  the link task stores and saves that link.  So the link has no custom tasks when none
  was stored under the name before.
\<close>

theorem missing_index_file_is_not_fatal:
  assumes "findPathByName env (pathJoin env [location]) ''tasks'' = foundPath # others"
    and "foundPath \<noteq> []"
    and "\<not> checkPathExists env (pathJoin env [foundPath, ''index.js''])"
  shows "checkCustomTaskFile env \<lparr>path = Some location, tasks = previous\<rparr> w =
           (Return None,
            w\<lparr>logs := logs w @ [LogWarn ''Linked tap task folder exists, but index.js file is missing!'']\<rparr>)
    \<and> (ensureAddLink env (getTapLink (globalConfig w) tapName) tapName location silent \<longrightarrow>
         buildTapObj env silent tapName location w =
           (Return (Some \<lparr>path = Some location,
                           tasks = tasks (copyTap (getTapLink (globalConfig w) tapName))\<rparr>),
            w\<lparr>logs := logs w @ [LogWarn ''Linked tap task folder exists, but index.js file is missing!'']\<rparr>)
         \<and> fst (linkTap env \<lparr>paramName = tapName, paramLocation = location,
                               paramSilent = silent\<rparr> w) = Return ()
         \<and> getTapLink (globalConfig (snd (linkTap env
               \<lparr>paramName = tapName, paramLocation = location, paramSilent = silent\<rparr> w))) tapName
             = Some \<lparr>path = Some location,
                     tasks = tasks (copyTap (getTapLink (globalConfig w) tapName))\<rparr>
         \<and> saves (snd (linkTap env
               \<lparr>paramName = tapName, paramLocation = location, paramSilent = silent\<rparr> w))
             = saves w @ [globalConfig (snd (linkTap env
               \<lparr>paramName = tapName, paramLocation = location, paramSilent = silent\<rparr> w))]
         \<and> (tasks (copyTap (getTapLink (globalConfig w) tapName)) = None \<longrightarrow>
              fst (buildTapObj env silent tapName location w)
                = Return (Some \<lparr>path = Some location, tasks = None\<rparr>)))"
proof -
  have locate: "\<And>previous v. checkCustomTaskFile env \<lparr>path = Some location, tasks = previous\<rparr> v =
           (Return None,
            v\<lparr>logs := logs v @ [LogWarn ''Linked tap task folder exists, but index.js file is missing!'']\<rparr>)"
    using assms by (simp add: checkCustomTaskFile_def logLines_def Let_def)
  have build: "buildTapObj env silent tapName location w =
          (Return (Some \<lparr>path = Some location,
                          tasks = tasks (copyTap (getTapLink (globalConfig w) tapName))\<rparr>),
           w\<lparr>logs := logs w @ [LogWarn ''Linked tap task folder exists, but index.js file is missing!'']\<rparr>)"
    if "ensureAddLink env (getTapLink (globalConfig w) tapName) tapName location silent"
  proof -
    have "checkTapLocation (copyTap (getTapLink (globalConfig w) tapName)) location
            = \<lparr>path = Some location,
               tasks = tasks (copyTap (getTapLink (globalConfig w) tapName))\<rparr>"
      by (cases "copyTap (getTapLink (globalConfig w) tapName)")
        (auto simp: checkTapLocation_def)
    then show ?thesis
      using that locate [of "tasks (copyTap (getTapLink (globalConfig w) tapName))" w]
      by (simp add: buildTapObj_def Let_def truthy_def)
  qed
  show ?thesis
    using locate [of previous w] build
    by (auto simp: linkTap_def addTapLink_def addGlobalConfigProp_def logLines_def getTapLink_def
        Let_def split: option.splits)
qed

text \<open>
  A link \<^verbatim>\<open>x\<close> without custom tasks, linked again at \<^verbatim>\<open>/b\<close> with the operator's consent:
  the stored link is at \<^verbatim>\<open>/b\<close> and has no custom tasks.
\<close>

theorem missing_index_file_is_not_fatal_witness:
  "getTapLink (globalConfig (snd (linkTap (registryEnv True)
      \<lparr>paramName = ''x'', paramLocation = ''/b'', paramSilent = False\<rparr>
      (scenarioWorld [(''x'', linkA)] [])))) ''x''
     = Some \<lparr>path = Some ''/b'', tasks = None\<rparr>"
proof -
  have folder: "findPathByName (registryEnv True) (pathJoin (registryEnv True) [''/b'']) ''tasks''
          = ''/b/tasks'' # []"
    and missing: "\<not> checkPathExists (registryEnv True)
          (pathJoin (registryEnv True) [''/b/tasks'', ''index.js''])"
    by (simp_all add: registryEnv_def)
  have confirmed: "ensureAddLink (registryEnv True)
          (getTapLink (globalConfig (scenarioWorld [(''x'', linkA)] [])) ''x'') ''x'' ''/b'' False"
    by (simp add: ensureAddLink_def registryEnv_def)
  have fresh: "tasks (copyTap (getTapLink (globalConfig (scenarioWorld [(''x'', linkA)] [])) ''x''))
          = None"
    by (simp add: copyTap_def getTapLink_def scenarioWorld_def linkA_def)
  from missing_index_file_is_not_fatal
      [where w = "scenarioWorld [(''x'', linkA)] []" and tapName = "''x''"
      and silent = False and previous = None, OF folder _ missing]
    confirmed fresh
  show ?thesis by simp
qed

text \<open>
  C7 as stated fails when the link that is overwritten has a custom-task entry: the
  locator reports no entry for \<^verbatim>\<open>/b\<close>, and the object that is built still carries the
  entry of the link at \<^verbatim>\<open>/a\<close>.
\<close>

theorem missing_index_keeps_previous_tasks_counterexample:
  "fst (checkCustomTaskFile (registryEnv True) \<lparr>path = Some ''/b'', tasks = Some ''/a/tasks/index.js''\<rparr>
          (scenarioWorld [(''x'', linkAWithTasks)] []))
     = Return None
   \<and> fst (buildTapObj (registryEnv True) False ''x'' ''/b''
          (scenarioWorld [(''x'', linkAWithTasks)] []))
     = Return (Some \<lparr>path = Some ''/b'', tasks = Some ''/a/tasks/index.js''\<rparr>)"
  by (simp add: link_defs registry_defs)

end
